theory Spec2Isabelle
  imports Main "HOL-Library.Multiset" "HOL-Library.Monad_Syntax"
begin


section \<open>Python values the handlers work with\<close>

text \<open>
  Every exception the handlers of \<open>main.py\<close> can raise is a value of \<open>exn\<close>; a
  computation that may raise returns \<open>exn + 'a\<close>, with \<open>Inl\<close> for the exception.
  \<open>HTTPException\<close> carries \<open>status_code\<close> and \<open>detail\<close>.
\<close>

datatype exn =
    HTTPException nat string
  | RequestValidationError
  | ValidationError
  | IndexError
  | KeyError
  | TypeError
  | AttributeError
  | ValueError
  | OverflowError
  | RequestException
  | Exception

text \<open>
  The status the framework answers with: an \<open>HTTPException\<close> gives its own code, a
  request that fails the declared schema gives 422, any other exception that leaves a
  handler gives 500, and a returned value gives 200.
\<close>

fun status_code_of :: "exn + 'a \<Rightarrow> nat" where
  "status_code_of (Inl (HTTPException c d)) = c"
| "status_code_of (Inl RequestValidationError) = 422"
| "status_code_of (Inl e) = 500"
| "status_code_of (Inr v) = 200"

text \<open>One statement after another: an exception of the first skips the second.\<close>

definition and_then :: "exn + 'a \<Rightarrow> ('a \<Rightarrow> exn + 'b) \<Rightarrow> exn + 'b" where
  "and_then m f = (case m of Inl e \<Rightarrow> Inl e | Inr v \<Rightarrow> f v)"

text \<open>
  A call with positional arguments: a function of \<open>params\<close> parameters called with
  \<open>args\<close> arguments returns what its body returns when the numbers agree, and raises
  \<open>TypeError\<close> when they do not.
\<close>

definition call :: "nat \<Rightarrow> nat \<Rightarrow> exn + 'a \<Rightarrow> exn + 'a" where
  "call params args body = (if params = args then body else Inl TypeError)"

text \<open>
  \<open>str.lower\<close> on the characters a header can hold (code points 0 to 255): the
  letters A to Z and the capital letters of the upper half (192 to 222, the
  multiplication sign 215 apart) move up by 32, everything else stays.
\<close>

definition lower_char :: "char \<Rightarrow> char" where
  "lower_char c =
     (let n = (of_char c :: nat)
      in if (65 \<le> n \<and> n \<le> 90) \<or> (192 \<le> n \<and> n \<le> 222 \<and> n \<noteq> 215)
         then char_of (n + 32) else c)"

definition lower :: "string \<Rightarrow> string" where
  "lower s = map lower_char s"

definition startswith :: "string \<Rightarrow> string \<Rightarrow> bool" where
  "startswith s p \<longleftrightarrow> take (length p) s = p"

text \<open>\<open>s.split(sep, 1)\<close> for a separator of one character: cut at its first occurrence.\<close>

definition split1 :: "char \<Rightarrow> string \<Rightarrow> string list" where
  "split1 sep s =
     (case dropWhile (\<lambda>c. c \<noteq> sep) s of
        [] \<Rightarrow> [s]
      | _ # rest \<Rightarrow> [takeWhile (\<lambda>c. c \<noteq> sep) s, rest])"

text \<open>\<open>xs[i]\<close> for a non-negative index: out of range raises \<open>IndexError\<close>.\<close>

definition index :: "'a list \<Rightarrow> nat \<Rightarrow> exn + 'a" where
  "index xs i = (if i < length xs then Inr (xs ! i) else Inl IndexError)"

section \<open>The access gate\<close>

definition require_admin :: "string \<Rightarrow> string option \<Rightarrow> exn + unit" where
  "require_admin ADMIN_TOKEN authorization =
     (case (case authorization of
              None \<Rightarrow> Inr []
            | Some a \<Rightarrow>
                if a \<noteq> [] \<and> startswith (lower a) ''bearer ''
                then index (split1 CHR '' '' a) 1
                else Inr [])
      of Inl e \<Rightarrow> Inl e
       | Inr token \<Rightarrow>
           if ADMIN_TOKEN = [] \<or> token \<noteq> ADMIN_TOKEN
           then Inl (HTTPException 401 ''Unauthorized'')
           else Inr ())"


text \<open>
  A route declared with \<open>dependencies=[Depends(require_admin)]\<close>: the framework runs
  the dependency first; when it raises, the handler is not called and the exception is
  the answer.
\<close>

definition Depends :: "exn + unit \<Rightarrow> ('s \<Rightarrow> (exn + 'a) \<times> 's) \<Rightarrow> 's \<Rightarrow> (exn + 'a) \<times> 's" where
  "Depends dependency handler s =
     (case dependency of Inl e \<Rightarrow> (Inl e, s) | Inr _ \<Rightarrow> handler s)"

section \<open>Schemas\<close>

text \<open>
  \<open>schemas.Message\<close>; \<open>ContactIn\<close> has the same three fields. The field \<open>name\<close>
  is written \<open>Message.name\<close>, since \<open>Project\<close> has a field of that name too.
\<close>

record Message =
  name :: string
  email :: string
  message :: string

text \<open>\<open>schemas.Project\<close>; \<open>live\<close> defaults to \<open>None\<close>.\<close>

record Project =
  name :: string
  description :: string
  stack :: "string list"
  github :: "string option"
  live :: "string option"
  featured :: bool
  order :: int

text \<open>
  \<open>ProjectOut\<close> has the fields of \<open>Project\<close> and the identifier, rendered as text.
\<close>

record ProjectOut = Project +
  id' :: string

section \<open>The document store\<close>

text \<open>
  JSON values: the bodies the music provider answers with, and the values of the
  fields a stored document has beyond its schema. Of a number the handlers use only
  whether it is zero, so numbers are integers here. Python's \<open>None\<close> is \<open>JNull\<close>.
\<close>

datatype json =
    JNull
  | JBool bool
  | JNum int
  | JStr string
  | JArr "json list"
  | JObj "(string \<times> json) list"

text \<open>
  A store identifier is modelled by a number. What the \<open>bson\<close> library decides is
  taken as given, whatever it is: which strings and which identifiers
  \<open>ObjectId.is_valid\<close> accepts, the identifier \<open>ObjectId(s)\<close> builds from an accepted
  string, and the text \<open>str(oid)\<close>.
\<close>

type_synonym oid = nat

record bson =
  is_valid :: "string \<Rightarrow> bool"
  is_valid_oid :: "oid \<Rightarrow> bool"
  ObjectId :: "string \<Rightarrow> oid"
  str :: "oid \<Rightarrow> string"

text \<open>
  A stored document: its \<open>_id\<close>, the fields of its schema, and whatever other fields
  the schema-flexible store holds for it.
\<close>

record 'a document =
  doc_id :: oid
  doc_fields :: 'a
  doc_extra :: "(string \<times> json) list"

text \<open>
  The database: the collections \<open>project\<close> and \<open>message\<close>, each in insertion order,
  and the next identifier the store assigns. \<open>db\<close> is \<open>None\<close> when there is no
  connection.
\<close>

record store =
  project_collection :: "Project document list"
  message_collection :: "Message document list"
  next_oid :: oid

type_synonym db = "store option"

text \<open>\<open>collection.count_documents({})\<close>.\<close>

definition count_documents :: "'a document list \<Rightarrow> nat" where
  "count_documents docs = length docs"

text \<open>
  \<open>collection.find({}).sort("order", 1)\<close>: every document, ascending by \<open>order\<close>.
  The store promises nothing about documents of equal \<open>order\<close>: they come in an
  order of the store's own, which \<open>tie\<close> ranks and which is taken as given, whatever
  it is.
\<close>

definition find_sort_order ::
  "(Project document \<Rightarrow> nat) \<Rightarrow> Project document list \<Rightarrow> Project document list" where
  "find_sort_order tie docs = sort_key (\<lambda>d. order (doc_fields d)) (sort_key tie docs)"

text \<open>
  The store holds integers of up to 8 bytes; the driver raises \<open>OverflowError\<close> when
  it is given a larger one, before anything is sent to the store.
\<close>

definition int64 :: "int \<Rightarrow> bool" where
  "int64 n \<longleftrightarrow> - (2 ^ 63) \<le> n \<and> n < 2 ^ 63"

text \<open>
  What \<open>{"$set": new}\<close> does to the first document whose \<open>_id\<close> is \<open>k\<close>: it gets the
  given schema fields; its \<open>_id\<close> and its other fields stay. The second component
  is the number of documents matched.
\<close>

fun set_first :: "oid \<Rightarrow> 'a \<Rightarrow> 'a document list \<Rightarrow> 'a document list \<times> nat" where
  "set_first k new [] = ([], 0)"
| "set_first k new (d # ds) =
     (if doc_id d = k then (d\<lparr>doc_fields := new\<rparr> # ds, 1)
      else (case set_first k new ds of (ds', n) \<Rightarrow> (d # ds', n)))"

text \<open>
  \<open>collection.update_one({"_id": k}, {"$set": new})\<close> on the project collection:
  the driver encodes the fields first, and raises when \<open>order\<close> does not fit 8 bytes;
  the collection is then as it was. The second component of a result is
  \<open>matched_count\<close>.
\<close>

definition update_one ::
  "oid \<Rightarrow> Project \<Rightarrow> Project document list \<Rightarrow> exn + Project document list \<times> nat" where
  "update_one k new docs =
     (if \<not> int64 (order new) then Inl OverflowError else Inr (set_first k new docs))"

text \<open>
  \<open>collection.delete_one({"_id": k})\<close>: the first document whose \<open>_id\<close> is \<open>k\<close> is
  removed. The second component is \<open>deleted_count\<close>.
\<close>

fun delete_one :: "oid \<Rightarrow> 'a document list \<Rightarrow> 'a document list \<times> nat" where
  "delete_one k [] = ([], 0)"
| "delete_one k (d # ds) =
     (if doc_id d = k then (ds, 1)
      else (case delete_one k ds of (ds', n) \<Rightarrow> (d # ds', n)))"

text \<open>
  Modelled from the spec: \<open>create_document\<close> of the module \<open>database\<close>, which is not
  among the sources. The specification says of it that it inserts the record into the
  named collection, that the store assigns the record a unique identifier on creation,
  and that the identifier is returned as a string. The specification gives no result
  for an insertion without a connection; the model raises there and persists nothing.
\<close>

definition create_document_project :: "bson \<Rightarrow> Project \<Rightarrow> db \<Rightarrow> (exn + string) \<times> db" where
  "create_document_project lib data db =
     (case db of
        None \<Rightarrow> (Inl Exception, None)
      | Some st \<Rightarrow>
          (Inr (str lib (next_oid st)),
           Some (st\<lparr>project_collection :=
                       project_collection st @
                         [\<lparr>doc_id = next_oid st, doc_fields = data, doc_extra = []\<rparr>],
                     next_oid := Suc (next_oid st)\<rparr>)))"

definition create_document_message :: "bson \<Rightarrow> Message \<Rightarrow> db \<Rightarrow> (exn + string) \<times> db" where
  "create_document_message lib data db =
     (case db of
        None \<Rightarrow> (Inl Exception, None)
      | Some st \<Rightarrow>
          (Inr (str lib (next_oid st)),
           Some (st\<lparr>message_collection :=
                       message_collection st @
                         [\<lparr>doc_id = next_oid st, doc_fields = data, doc_extra = []\<rparr>],
                     next_oid := Suc (next_oid st)\<rparr>)))"

section \<open>Projects\<close>

text \<open>
  \<open>ProjectSchema(**p)\<close> for an entry of \<open>SEED_PROJECTS\<close>: the entry gives every field
  but \<open>live\<close>, which takes its default.
\<close>

definition ProjectSchema ::
  "string \<Rightarrow> string \<Rightarrow> string list \<Rightarrow> string \<Rightarrow> bool \<Rightarrow> int \<Rightarrow> Project" where
  "ProjectSchema n d s g f ord =
     \<lparr>name = n, description = d, stack = s, github = Some g, live = None,
      featured = f, order = ord\<rparr>"

definition SEED_PROJECTS :: "Project list" where
  "SEED_PROJECTS =
     [ProjectSchema ''Sarepay''
        ''Multi-tenant payment processing system for merchants.''
        [''PHP'', ''Laravel'', ''MySQL'', ''Redis'', ''Docker'', ''AWS'']
        ''https://github.com/devwaleh/sarepay'' True 1,
      ProjectSchema ''Piper Backoffice''
        ''Admin dashboard for transaction monitoring and settlements.''
        [''Laravel'', ''MySQL'', ''Redis'', ''Tailwind'']
        ''https://github.com/devwaleh/piper-backoffice'' True 2,
      ProjectSchema ''Gridman''
        ''Distributed microservice for real-time wallet transactions.''
        [''Node.js'', ''Express'', ''MongoDB'', ''Docker'', ''Microservices'']
        ''https://github.com/devwaleh/gridman'' False 3,
      ProjectSchema ''Monitraka''
        ''AI-powered transaction anomaly detector.''
        [''Python'', ''FastAPI'', ''Scikit-learn'', ''Redis'']
        ''https://github.com/devwaleh/monitraka'' False 4]"

text \<open>The loop of \<open>ensure_seed_projects\<close>: an exception ends it.\<close>

fun create_all :: "bson \<Rightarrow> Project list \<Rightarrow> db \<Rightarrow> (exn + unit) \<times> db" where
  "create_all lib [] db = (Inr (), db)"
| "create_all lib (p # ps) db =
     (case create_document_project lib p db of
        (Inl e, db') \<Rightarrow> (Inl e, db')
      | (Inr _, db') \<Rightarrow> create_all lib ps db')"

definition ensure_seed_projects :: "bson \<Rightarrow> db \<Rightarrow> (exn + unit) \<times> db" where
  "ensure_seed_projects lib db =
     (case db of
        None \<Rightarrow> (Inr (), db)
      | Some st \<Rightarrow>
          if count_documents (project_collection st) = 0
          then create_all lib SEED_PROJECTS db
          else (Inr (), db))"

text \<open>\<open>ObjectIdStr.validate(cls, v)\<close>, the body, for the \<open>_id\<close> of a stored document.\<close>

definition ObjectIdStr_validate :: "bson \<Rightarrow> oid \<Rightarrow> exn + string" where
  "ObjectIdStr_validate lib v =
     (if \<not> is_valid_oid lib v then Inl ValueError else Inr (str lib v))"

text \<open>
  \<open>ProjectOut(**i)\<close> for a stored project. The models of \<open>main.py\<close> are those of
  pydantic 2 (\<open>model_dump\<close>, \<open>populate_by_name\<close>), which calls every function that
  \<open>__get_validators__\<close> yields with two arguments, the value and the validation
  info. \<open>validate\<close> has one parameter beside \<open>cls\<close>, so validating the field \<open>id\<close>
  raises \<open>TypeError\<close>, which is not a validation error and leaves the constructor.
  Fields outside the schema would be dropped.
\<close>

definition ProjectOut_of :: "bson \<Rightarrow> Project document \<Rightarrow> exn + ProjectOut" where
  "ProjectOut_of lib i =
     and_then (call 1 2 (ObjectIdStr_validate lib (doc_id i)))
       (\<lambda>rendered.
          Inr \<lparr>name = name (doc_fields i), description = description (doc_fields i),
               stack = stack (doc_fields i), github = github (doc_fields i),
               live = live (doc_fields i), featured = featured (doc_fields i),
               order = order (doc_fields i), id' = rendered\<rparr>)"

text \<open>\<open>[ProjectOut(**i) for i in items]\<close>: the first exception ends the comprehension.\<close>

fun project_outs :: "bson \<Rightarrow> Project document list \<Rightarrow> exn + ProjectOut list" where
  "project_outs lib [] = Inr []"
| "project_outs lib (i # items) =
     and_then (ProjectOut_of lib i)
       (\<lambda>out. and_then (project_outs lib items) (\<lambda>outs. Inr (out # outs)))"

text \<open>
  \<open>list_projects\<close>. Without a connection \<open>db["project"]\<close> subscripts \<open>None\<close>, which
  raises \<open>TypeError\<close>.
\<close>

definition list_projects ::
  "bson \<Rightarrow> (Project document \<Rightarrow> nat) \<Rightarrow> db \<Rightarrow> (exn + ProjectOut list) \<times> db" where
  "list_projects lib tie db =
     (case ensure_seed_projects lib db of
        (Inl e, db') \<Rightarrow> (Inl e, db')
      | (Inr _, db') \<Rightarrow>
          (case db' of
             None \<Rightarrow> (Inl TypeError, db')
           | Some st \<Rightarrow> (project_outs lib (find_sort_order tie (project_collection st)), db')))"

text \<open>\<open>create_project\<close>; the answer \<open>{"_id": _id}\<close> is given by its one value.\<close>

definition create_project :: "bson \<Rightarrow> Project \<Rightarrow> db \<Rightarrow> (exn + string) \<times> db" where
  "create_project lib project db = create_document_project lib project db"

text \<open>\<open>update_project\<close>; the answer \<open>{"updated": True}\<close> is given by its one value.\<close>

definition update_project :: "bson \<Rightarrow> string \<Rightarrow> Project \<Rightarrow> db \<Rightarrow> (exn + bool) \<times> db" where
  "update_project lib project_id project db =
     (if \<not> is_valid lib project_id then (Inl (HTTPException 400 ''Invalid id''), db)
      else
        (case db of
           None \<Rightarrow> (Inl TypeError, db)
         | Some st \<Rightarrow>
             (case update_one (ObjectId lib project_id) project (project_collection st) of
                Inl e \<Rightarrow> (Inl e, db)
              | Inr (docs, matched_count) \<Rightarrow>
                  (if matched_count = 0 then Inl (HTTPException 404 ''Not found'') else Inr True,
                   Some (st\<lparr>project_collection := docs\<rparr>)))))"

text \<open>\<open>delete_project\<close>; the answer \<open>{"deleted": True}\<close> is given by its one value.\<close>

definition delete_project :: "bson \<Rightarrow> string \<Rightarrow> db \<Rightarrow> (exn + bool) \<times> db" where
  "delete_project lib project_id db =
     (if \<not> is_valid lib project_id then (Inl (HTTPException 400 ''Invalid id''), db)
      else
        (case db of
           None \<Rightarrow> (Inl TypeError, db)
         | Some st \<Rightarrow>
             (case delete_one (ObjectId lib project_id) (project_collection st) of
                (docs, deleted_count) \<Rightarrow>
                  (if deleted_count = 0 then Inl (HTTPException 404 ''Not found'') else Inr True,
                   Some (st\<lparr>project_collection := docs\<rparr>)))))"

text \<open>The three gated routes, as their decorators declare them.\<close>

definition post_api_projects ::
  "bson \<Rightarrow> string \<Rightarrow> string option \<Rightarrow> Project \<Rightarrow> db \<Rightarrow> (exn + string) \<times> db" where
  "post_api_projects lib ADMIN_TOKEN authorization project =
     Depends (require_admin ADMIN_TOKEN authorization) (create_project lib project)"

definition put_api_projects ::
  "bson \<Rightarrow> string \<Rightarrow> string option \<Rightarrow> string \<Rightarrow> Project \<Rightarrow> db \<Rightarrow> (exn + bool) \<times> db" where
  "put_api_projects lib ADMIN_TOKEN authorization project_id project =
     Depends (require_admin ADMIN_TOKEN authorization) (update_project lib project_id project)"

definition delete_api_projects ::
  "bson \<Rightarrow> string \<Rightarrow> string option \<Rightarrow> string \<Rightarrow> db \<Rightarrow> (exn + bool) \<times> db" where
  "delete_api_projects lib ADMIN_TOKEN authorization project_id =
     Depends (require_admin ADMIN_TOKEN authorization) (delete_project lib project_id)"


section \<open>Contact\<close>

text \<open>
  The e-mail validation of \<open>pydantic\<close> is taken as given, whatever it is: \<open>EmailStr\<close>
  maps a string to \<open>None\<close> when it rejects it and to the validated address when it
  accepts it. \<open>ContactIn\<close> is built by the framework from the request, and a
  rejection there is answered 422; \<open>MessageSchema(**data.model_dump())\<close> validates
  again inside the handler, where a rejection is an exception of the handler.
\<close>

definition ContactIn ::
  "(string \<Rightarrow> string option) \<Rightarrow> string \<Rightarrow> string \<Rightarrow> string \<Rightarrow> exn + Message" where
  "ContactIn EmailStr n e m =
     (case EmailStr e of
        None \<Rightarrow> Inl RequestValidationError
      | Some e' \<Rightarrow> Inr \<lparr>Message.name = n, email = e', message = m\<rparr>)"

definition MessageSchema :: "(string \<Rightarrow> string option) \<Rightarrow> Message \<Rightarrow> exn + Message" where
  "MessageSchema EmailStr data =
     (case EmailStr (email data) of
        None \<Rightarrow> Inl ValidationError
      | Some e' \<Rightarrow> Inr (data\<lparr>email := e'\<rparr>))"

text \<open>
  A reading of \<open>datetime.utcnow()\<close>, and \<open>isoformat\<close>: the fields in decimal, padded
  with zeros to their widths; the microseconds are left out when they are zero.
\<close>

record datetime =
  year :: nat
  month :: nat
  day :: nat
  hour :: nat
  minute :: nat
  second :: nat
  microsecond :: nat

primrec zero_padded :: "nat \<Rightarrow> nat \<Rightarrow> string" where
  "zero_padded 0 n = []"
| "zero_padded (Suc w) n = zero_padded w (n div 10) @ [''0123456789'' ! (n mod 10)]"

definition isoformat :: "datetime \<Rightarrow> string" where
  "isoformat t =
     zero_padded 4 (year t) @ ''-'' @ zero_padded 2 (month t) @ ''-'' @ zero_padded 2 (day t)
     @ ''T'' @ zero_padded 2 (hour t) @ '':'' @ zero_padded 2 (minute t) @ '':''
     @ zero_padded 2 (second t)
     @ (if microsecond t = 0 then [] else ''.'' @ zero_padded 6 (microsecond t))"

text \<open>The answer \<open>{"ok": True, "received_at": ...}\<close>.\<close>

record acknowledgement =
  ok :: bool
  received_at :: string

definition contact ::
  "(string \<Rightarrow> string option) \<Rightarrow> bson \<Rightarrow> datetime \<Rightarrow> Message \<Rightarrow> db
     \<Rightarrow> (exn + acknowledgement) \<times> db" where
  "contact EmailStr lib utcnow data db =
     (case MessageSchema EmailStr data of
        Inl e \<Rightarrow> (Inl e, db)
      | Inr m \<Rightarrow>
          (case create_document_message lib m db of
             (Inl e, db') \<Rightarrow> (Inl e, db')
           | (Inr _, db') \<Rightarrow> (Inr \<lparr>ok = True, received_at = isoformat utcnow @ ''Z''\<rparr>, db')))"

text \<open>The route: the framework validates the body as \<open>ContactIn\<close>, then calls the handler.\<close>

definition post_api_contact ::
  "(string \<Rightarrow> string option) \<Rightarrow> bson \<Rightarrow> datetime \<Rightarrow> string \<Rightarrow> string \<Rightarrow> string \<Rightarrow> db
     \<Rightarrow> (exn + acknowledgement) \<times> db" where
  "post_api_contact EmailStr lib utcnow n e m db =
     (case ContactIn EmailStr n e m of
        Inl err \<Rightarrow> (Inl err, db)
      | Inr data \<Rightarrow> contact EmailStr lib utcnow data db)"

section \<open>Now playing\<close>

text \<open>Python on JSON values: truth, \<open>v.get(key, dflt)\<close>, iteration, \<open>v[0]\<close>, \<open>join\<close>.\<close>

fun truthy :: "json \<Rightarrow> bool" where
  "truthy JNull = False"
| "truthy (JBool b) = b"
| "truthy (JNum n) = (n \<noteq> 0)"
| "truthy (JStr s) = (s \<noteq> [])"
| "truthy (JArr xs) = (xs \<noteq> [])"
| "truthy (JObj kvs) = (kvs \<noteq> [])"

text \<open>Only a dictionary has \<open>get\<close>; on any other value the attribute is missing.\<close>

fun get :: "json \<Rightarrow> string \<Rightarrow> json \<Rightarrow> exn + json" where
  "get (JObj kvs) key dflt = (case map_of kvs key of None \<Rightarrow> Inr dflt | Some v \<Rightarrow> Inr v)"
| "get v key dflt = Inl AttributeError"

text \<open>
  \<open>for a in v\<close>: a list gives its elements, a string its characters, a dictionary its
  keys; nothing else can be iterated.
\<close>

fun iterate :: "json \<Rightarrow> exn + json list" where
  "iterate (JArr xs) = Inr xs"
| "iterate (JStr s) = Inr (map (\<lambda>c. JStr [c]) s)"
| "iterate (JObj kvs) = Inr (map (\<lambda>kv. JStr (fst kv)) kvs)"
| "iterate v = Inl TypeError"

text \<open>
  \<open>v[0]\<close>: the first element of a list or of a string; a dictionary of a JSON body
  has no key \<open>0\<close>; nothing else can be subscripted.
\<close>

fun subscript0 :: "json \<Rightarrow> exn + json" where
  "subscript0 (JArr []) = Inl IndexError"
| "subscript0 (JArr (x # xs)) = Inr x"
| "subscript0 (JStr []) = Inl IndexError"
| "subscript0 (JStr (c # cs)) = Inr (JStr [c])"
| "subscript0 (JObj kvs) = Inl KeyError"
| "subscript0 v = Inl TypeError"

text \<open>\<open>sep.join(xs)\<close>: every element must be a string.\<close>

fun join :: "string \<Rightarrow> json list \<Rightarrow> exn + string" where
  "join sep [] = Inr []"
| "join sep [JStr s] = Inr s"
| "join sep (JStr s # x # xs) =
     (case join sep (x # xs) of Inl e \<Rightarrow> Inl e | Inr r \<Rightarrow> Inr (s @ sep @ r))"
| "join sep xs = Inl TypeError"

text \<open>\<open>[a.get("name") for a in xs]\<close>.\<close>

fun names_of :: "json list \<Rightarrow> exn + json list" where
  "names_of [] = Inr []"
| "names_of (a # xs) =
     and_then (get a ''name'' JNull) (\<lambda>n. and_then (names_of xs) (\<lambda>ns. Inr (n # ns)))"

text \<open>
  What \<open>requests\<close> gives back: the status code, and the result of \<open>.json()\<close>, which
  raises on a body that is not JSON.
\<close>

record response =
  status_code :: nat
  body_json :: "exn + json"

text \<open>
  The music provider, taken as given: its answer to the token request, by the form
  data sent, and its answer to the currently-playing request, by the token sent in
  the Authorization header. \<open>Inl\<close> is an exception of the call (a network failure or
  the timeout).
\<close>

record provider =
  token_endpoint :: "(string \<times> string) list \<Rightarrow> exn + response"
  currently_playing :: "json \<Rightarrow> exn + response"

text \<open>The truth of a value of \<open>os.getenv\<close>: it is set and not empty.\<close>

fun env_set :: "string option \<Rightarrow> bool" where
  "env_set None = False"
| "env_set (Some s) = (s \<noteq> [])"

text \<open>\<open>a or b\<close> for a value of \<open>os.getenv\<close> and a string.\<close>

fun or_else :: "string option \<Rightarrow> string \<Rightarrow> string" where
  "or_else None b = b"
| "or_else (Some a) b = (if a = [] then b else a)"

definition token_request :: "string \<Rightarrow> string \<Rightarrow> string \<Rightarrow> (string \<times> string) list" where
  "token_request client_id client_secret refresh_token =
     [(''grant_type'', ''refresh_token''), (''refresh_token'', refresh_token),
      (''client_id'', client_id), (''client_secret'', client_secret)]"

text \<open>\<open>get_spotify_access_token\<close>; \<open>None\<close> is \<open>JNull\<close>.\<close>

definition get_spotify_access_token ::
  "string option \<Rightarrow> string option \<Rightarrow> string option \<Rightarrow> provider \<Rightarrow> json" where
  "get_spotify_access_token SPOTIFY_CLIENT_ID SPOTIFY_CLIENT_SECRET SPOTIFY_REFRESH_TOKEN prov =
     (if \<not> (env_set SPOTIFY_CLIENT_ID \<and> env_set SPOTIFY_CLIENT_SECRET
              \<and> env_set SPOTIFY_REFRESH_TOKEN)
      then JNull
      else
        (case and_then
                (token_endpoint prov
                   (token_request (the SPOTIFY_CLIENT_ID) (the SPOTIFY_CLIENT_SECRET)
                      (the SPOTIFY_REFRESH_TOKEN)))
                (\<lambda>resp.
                   if status_code resp = 200
                   then and_then (body_json resp) (\<lambda>b. get b ''access_token'' JNull)
                   else Inr JNull)
         of Inl e \<Rightarrow> JNull
          | Inr v \<Rightarrow> v))"

definition not_playing :: json where
  "not_playing = JObj [(''isPlaying'', JBool False)]"

text \<open>The body of the \<open>try\<close> of \<open>now_playing\<close>.\<close>

definition now_playing_try :: "provider \<Rightarrow> json \<Rightarrow> exn + json" where
  "now_playing_try prov token =
     and_then (currently_playing prov token) (\<lambda>r.
       if status_code r = 204 then Inr not_playing
       else if status_code r \<noteq> 200 then Inr not_playing
       else
         and_then (body_json r) (\<lambda>data.
         and_then (get data ''is_playing'' (JBool False)) (\<lambda>is_playing.
         and_then (get data ''item'' JNull) (\<lambda>found.
           let item = (if truthy found then found else JObj [])
           in if \<not> truthy item then Inr not_playing
              else
                and_then (get item ''artists'' (JArr [])) (\<lambda>listed.
                and_then (iterate listed) (\<lambda>each.
                and_then (names_of each) (\<lambda>names.
                and_then (join '', '' names) (\<lambda>artists.
                and_then (get item ''album'' (JObj [])) (\<lambda>album.
                and_then (get album ''images'' (JArr [])) (\<lambda>images.
                and_then (if truthy images
                          then and_then (subscript0 images) (\<lambda>first. get first ''url'' JNull)
                          else Inr JNull) (\<lambda>image.
                and_then (get item ''name'' JNull) (\<lambda>title.
                and_then (get album ''name'' JNull) (\<lambda>album_name.
                and_then (get item ''external_urls'' (JObj [])) (\<lambda>urls.
                and_then (get urls ''spotify'' JNull) (\<lambda>song_url.
                  Inr (JObj [(''isPlaying'', JBool (truthy is_playing)),
                             (''title'', title),
                             (''artist'', JStr artists),
                             (''album'', album_name),
                             (''albumImageUrl'', image),
                             (''songUrl'', song_url)]))))))))))))))))"

text \<open>\<open>now_playing\<close>: \<open>except Exception\<close> turns every exception of the body into the
  degraded answer.\<close>

definition now_playing ::
  "string option \<Rightarrow> string option \<Rightarrow> string option \<Rightarrow> provider \<Rightarrow> exn + json" where
  "now_playing SPOTIFY_CLIENT_ID SPOTIFY_CLIENT_SECRET SPOTIFY_REFRESH_TOKEN prov =
     (let token = get_spotify_access_token SPOTIFY_CLIENT_ID SPOTIFY_CLIENT_SECRET
                    SPOTIFY_REFRESH_TOKEN prov
      in if \<not> truthy token then Inr not_playing
         else (case now_playing_try prov token of
                 Inl e \<Rightarrow> Inr not_playing
               | Inr answer \<Rightarrow> Inr answer))"

section \<open>Diagnostics\<close>

text \<open>
  The three signs of the messages, as their UTF-8 bytes: the check mark, the cross
  mark and the warning sign.
\<close>

definition check_mark :: string where
  "check_mark = map char_of [226, 156, 133 :: nat]"

definition cross_mark :: string where
  "cross_mark = map char_of [226, 157, 140 :: nat]"

definition warning_sign :: string where
  "warning_sign = map char_of [226, 154, 160, 239, 184, 143 :: nat]"

record diagnostics =
  backend :: string
  database :: string
  database_url :: "string option"
  database_name :: "string option"
  connection_status :: string
  collections :: "string list"

text \<open>
  \<open>test_database\<close>. \<open>getenv\<close> is the environment; \<open>list_collection_names\<close> is the
  call of the driver, which returns the names or raises, \<open>Inl\<close> being the text of the
  exception. Nothing in the outer \<open>try\<close> can raise but that call, which the inner
  \<open>try\<close> catches, so the outer \<open>except\<close> has no case here.
\<close>

definition test_database ::
  "(string \<Rightarrow> string option) \<Rightarrow> db \<Rightarrow> (store \<Rightarrow> string + string list) \<Rightarrow> diagnostics" where
  "test_database getenv db list_collection_names =
     (let response =
            \<lparr>backend = check_mark @ '' Running'',
             database = cross_mark @ '' Not Available'',
             database_url = None,
             database_name = None,
             connection_status = ''Not Connected'',
             collections = []\<rparr>
      in case db of
           None \<Rightarrow> response
         | Some conn \<Rightarrow>
             (let response = response
                    \<lparr>database := check_mark @ '' Available'',
                     database_url :=
                       Some (if env_set (getenv ''DATABASE_URL'')
                             then check_mark @ '' Set'' else cross_mark @ '' Not Set''),
                     database_name := Some (or_else (getenv ''DATABASE_NAME'') ''Unknown'')\<rparr>
              in case list_collection_names conn of
                   Inr names \<Rightarrow>
                     response\<lparr>collections := take 10 names,
                              database := check_mark @ '' Connected & Working''\<rparr>
                 | Inl msg \<Rightarrow>
                     response\<lparr>database :=
                       warning_sign @ '' Connected but Error: '' @ take 50 msg\<rparr>))"

section \<open>The properties, in the specification's words\<close>

text \<open>
  The access gate as the specification words it: a secret is configured, the header
  is present and begins with the prefix "Bearer " whatever the case of its letters,
  and what follows the prefix is the secret.
\<close>

definition spec_authorize :: "string \<Rightarrow> string option \<Rightarrow> bool" where
  "spec_authorize secret header \<longleftrightarrow>
     secret \<noteq> [] \<and>
     (case header of
        None \<Rightarrow> False
      | Some h \<Rightarrow> 7 \<le> length h \<and> lower (take 7 h) = lower ''Bearer '' \<and> drop 7 h = secret)"

text \<open>
  The failures of the token refresh that the specification lists: the call raises,
  the status is not 200, or the body is malformed (it is not JSON, it is not an
  object, or it holds no access token).
\<close>

definition token_refresh_fails ::
  "string option \<Rightarrow> string option \<Rightarrow> string option \<Rightarrow> provider \<Rightarrow> bool" where
  "token_refresh_fails client_id client_secret refresh_token prov =
     (case token_endpoint prov
             (token_request (the client_id) (the client_secret) (the refresh_token)) of
        Inl e \<Rightarrow> True
      | Inr resp \<Rightarrow>
          status_code resp \<noteq> 200 \<or>
          (case body_json resp of
             Inl e \<Rightarrow> True
           | Inr b \<Rightarrow>
               (case get b ''access_token'' JNull of
                  Inl e \<Rightarrow> True
                | Inr t \<Rightarrow> \<not> truthy t)))"

text \<open>
  The failures of the playback-status call that the specification lists: the call
  raises, the status is 204 or any other than 200, or the body holds no playable item
  (it is not JSON, it is not an object, or its item is missing or empty).
\<close>

definition playback_unavailable :: "provider \<Rightarrow> json \<Rightarrow> bool" where
  "playback_unavailable prov token =
     (case currently_playing prov token of
        Inl e \<Rightarrow> True
      | Inr resp \<Rightarrow>
          status_code resp = 204 \<or> status_code resp \<noteq> 200 \<or>
          (case body_json resp of
             Inl e \<Rightarrow> True
           | Inr data \<Rightarrow>
               (case get data ''item'' JNull of
                  Inl e \<Rightarrow> True
                | Inr item \<Rightarrow> \<not> truthy item)))"

text \<open>
  What Python's \<open>datetime\<close> holds: a year of at most four digits, a month, a day, and
  a time of day to the microsecond.
\<close>

definition datetime_ok :: "datetime \<Rightarrow> bool" where
  "datetime_ok t \<longleftrightarrow>
     1 \<le> year t \<and> year t \<le> 9999 \<and> 1 \<le> month t \<and> month t \<le> 12
     \<and> 1 \<le> day t \<and> day t \<le> 31 \<and> hour t < 24 \<and> minute t < 60 \<and> second t < 60
     \<and> microsecond t < 1000000"

text \<open>
  Reading a UTC timestamp of ISO-8601 back: \<open>YYYY-MM-DDTHH:MM:SS\<close>, then the
  microseconds after a point if there are any, then the letter Z and nothing more.
  \<open>read_digits w\<close> reads exactly \<open>w\<close> decimal digits, \<open>expect c\<close> the character \<open>c\<close>.
\<close>

fun read_digits :: "nat \<Rightarrow> string \<Rightarrow> (nat \<times> string) option" where
  "read_digits 0 s = Some (0, s)"
| "read_digits (Suc w) s =
     (case read_digits w s of
        Some (v, c # rest) \<Rightarrow>
          if 48 \<le> (of_char c :: nat) \<and> (of_char c :: nat) \<le> 57
          then Some (10 * v + (of_char c - 48), rest) else None
      | _ \<Rightarrow> None)"

fun expect :: "char \<Rightarrow> string \<Rightarrow> string option" where
  "expect c [] = None"
| "expect c (x # rest) = (if x = c then Some rest else None)"

definition parse_utc :: "string \<Rightarrow> datetime option" where
  "parse_utc s =
     do {
       (y, s) \<leftarrow> read_digits 4 s;
       s \<leftarrow> expect CHR ''-'' s;
       (mo, s) \<leftarrow> read_digits 2 s;
       s \<leftarrow> expect CHR ''-'' s;
       (d, s) \<leftarrow> read_digits 2 s;
       s \<leftarrow> expect CHR ''T'' s;
       (h, s) \<leftarrow> read_digits 2 s;
       s \<leftarrow> expect CHR '':'' s;
       (mi, s) \<leftarrow> read_digits 2 s;
       s \<leftarrow> expect CHR '':'' s;
       (se, s) \<leftarrow> read_digits 2 s;
       (us, s) \<leftarrow> (if s = ''Z'' then Some (0, s)
                    else do { s \<leftarrow> expect CHR ''.'' s; read_digits 6 s });
       if s = ''Z''
       then Some \<lparr>year = y, month = mo, day = d, hour = h, minute = mi, second = se,
                  microsecond = us\<rparr>
       else None
     }"

definition unauthorized :: exn where
  "unauthorized = HTTPException 401 ''Unauthorized''"

text \<open>
  The documents a collection gains when the records \<open>ps\<close> are created one after the
  other, the store's next identifier being \<open>n\<close>.
\<close>

primrec seeded :: "oid \<Rightarrow> 'a list \<Rightarrow> 'a document list" where
  "seeded n [] = []"
| "seeded n (p # ps) = \<lparr>doc_id = n, doc_fields = p, doc_extra = []\<rparr> # seeded (Suc n) ps"

text \<open>
  The frame of an update or a delete by identifier \<open>k\<close>: the project records with
  another identifier are the same, in the same order; at most one record left the
  collection and at most one entered it; the other collection and the identifier
  counter are as they were; a missing connection stays missing.
\<close>

definition only_touches :: "oid \<Rightarrow> db \<Rightarrow> db \<Rightarrow> bool" where
  "only_touches k db db' =
     (case db of
        None \<Rightarrow> db' = None
      | Some st \<Rightarrow>
          (case db' of
             None \<Rightarrow> False
           | Some st' \<Rightarrow>
               filter (\<lambda>d. doc_id d \<noteq> k) (project_collection st') =
                 filter (\<lambda>d. doc_id d \<noteq> k) (project_collection st)
               \<and> size (mset (project_collection st) - mset (project_collection st')) \<le> 1
               \<and> size (mset (project_collection st') - mset (project_collection st)) \<le> 1
               \<and> message_collection st' = message_collection st
               \<and> next_oid st' = next_oid st))"

section \<open>Concrete inputs\<close>

text \<open>
  One behaviour of the \<open>bson\<close> library to evaluate the handlers with: an identifier
  is written as 24 hexadecimal digits, and denotes their value.
\<close>

definition is_hex_digit :: "char \<Rightarrow> bool" where
  "is_hex_digit c =
     (let n = (of_char c :: nat)
      in (48 \<le> n \<and> n \<le> 57) \<or> (97 \<le> n \<and> n \<le> 102) \<or> (65 \<le> n \<and> n \<le> 70))"

definition hex_digit_value :: "char \<Rightarrow> nat" where
  "hex_digit_value c =
     (let n = (of_char c :: nat)
      in if n \<le> 57 then n - 48 else if 97 \<le> n then n - 87 else n - 55)"

definition hex_value :: "string \<Rightarrow> nat" where
  "hex_value s = foldl (\<lambda>v c. 16 * v + hex_digit_value c) 0 s"

primrec hex_digits :: "nat \<Rightarrow> nat \<Rightarrow> string" where
  "hex_digits 0 n = []"
| "hex_digits (Suc w) n = hex_digits w (n div 16) @ [''0123456789abcdef'' ! (n mod 16)]"

definition hex24 :: bson where
  "hex24 =
     \<lparr>is_valid = (\<lambda>s. length s = 24 \<and> list_all is_hex_digit s),
      is_valid_oid = (\<lambda>v. True),
      ObjectId = hex_value,
      str = hex_digits 24\<rparr>"

definition demo_project :: "string \<Rightarrow> int \<Rightarrow> Project" where
  "demo_project n ord =
     \<lparr>name = n, description = ''demo'', stack = [], github = None, live = None,
      featured = False, order = ord\<rparr>"

text \<open>
  One behaviour of the e-mail validation to evaluate the handlers with: a string with
  an at sign is accepted, and returned with its domain, the part after the first at
  sign, in lower case, as \<open>EmailStr\<close> returns it.
\<close>

definition lowering_email :: "string \<Rightarrow> string option" where
  "lowering_email s =
     (case dropWhile (\<lambda>c. c \<noteq> CHR ''@'') s of
        [] \<Rightarrow> None
      | _ # domain \<Rightarrow> Some (takeWhile (\<lambda>c. c \<noteq> CHR ''@'') s @ ''@'' @ lower domain))"

definition demo_time :: datetime where
  "demo_time =
     \<lparr>year = 2024, month = 5, day = 17, hour = 9, minute = 3, second = 41,
      microsecond = 250\<rparr>"

text \<open>A provider that cannot be reached, and one that reports no active session.\<close>

definition provider_down :: provider where
  "provider_down =
     \<lparr>token_endpoint = (\<lambda>form. Inl RequestException),
      currently_playing = (\<lambda>token. Inl RequestException)\<rparr>"

definition provider_idle :: provider where
  "provider_idle =
     \<lparr>token_endpoint =
        (\<lambda>form. Inr \<lparr>status_code = 200,
                         body_json = Inr (JObj [(''access_token'', JStr ''tok'')])\<rparr>),
      currently_playing =
        (\<lambda>token. Inr \<lparr>status_code = 204, body_json = Inl ValueError\<rparr>)\<rparr>"

definition provider_playing :: provider where
  "provider_playing =
     \<lparr>token_endpoint =
        (\<lambda>form. Inr \<lparr>status_code = 200,
                         body_json = Inr (JObj [(''access_token'', JStr ''tok'')])\<rparr>),
      currently_playing =
        (\<lambda>token. Inr
           \<lparr>status_code = 200,
            body_json = Inr (JObj
              [(''is_playing'', JBool True),
               (''item'', JObj
                  [(''name'', JStr ''Song''),
                   (''artists'', JArr [JObj [(''name'', JStr ''Ann'')],
                                        JObj [(''name'', JStr ''Bob'')]]),
                   (''album'', JObj
                      [(''name'', JStr ''Album''),
                       (''images'', JArr [JObj [(''url'', JStr ''https://img/1'')],
                                           JObj [(''url'', JStr ''https://img/2'')]])]),
                   (''external_urls'', JObj [(''spotify'', JStr ''https://open/1'')])])])\<rparr>)\<rparr>"

definition demo_env :: "string \<Rightarrow> string \<Rightarrow> string \<Rightarrow> string option" where
  "demo_env url dbname =
     [''DATABASE_URL'' \<mapsto> url, ''DATABASE_NAME'' \<mapsto> dbname]"

definition empty_store :: store where
  "empty_store = \<lparr>project_collection = [], message_collection = [], next_oid = 0\<rparr>"

definition demo_store :: store where
  "demo_store =
     \<lparr>project_collection =
        [\<lparr>doc_id = 1, doc_fields = demo_project ''one'' 7,
          doc_extra = [(''created_at'', JStr ''2024-01-01'')]\<rparr>,
         \<lparr>doc_id = 2, doc_fields = demo_project ''two'' 3, doc_extra = []\<rparr>,
         \<lparr>doc_id = 3, doc_fields = demo_project ''three'' 7, doc_extra = []\<rparr>],
      message_collection = [],
      next_oid = 4\<rparr>"


section \<open>Strings\<close>

lemma lower_char_cases:
  "lower_char c = c \<or>
   lower_char c = char_of ((of_char c :: nat) + 32) \<and>
     65 \<le> (of_char c :: nat) \<and> (of_char c :: nat) \<le> 222"
  unfolding lower_char_def Let_def
  by (cases "(65 \<le> (of_char c::nat) \<and> (of_char c::nat) \<le> 90) \<or>
             (192 \<le> (of_char c::nat) \<and> (of_char c::nat) \<le> 222 \<and> (of_char c::nat) \<noteq> 215)")
     auto

lemma lower_char_space_fix: "lower_char CHR '' '' = CHR '' ''"
  by (simp add: lower_char_def)

text \<open>Only the space is lowered to the space.\<close>

lemma lower_char_space:
  assumes h: "lower_char c = CHR '' ''"
  shows "c = CHR '' ''"
proof -
  define n where "n = (of_char c :: nat)"
  from lower_char_cases [of c] show ?thesis
  proof
    assume "lower_char c = c"
    with h show ?thesis by simp
  next
    assume a: "lower_char c = char_of ((of_char c :: nat) + 32) \<and>
      65 \<le> (of_char c :: nat) \<and> (of_char c :: nat) \<le> 222"
    then have r: "65 \<le> n" "n \<le> 222" and e: "char_of (n + 32) = CHR '' ''"
      using h by (simp_all add: n_def)
    have "(of_char (char_of (n + 32) :: char) :: nat) = (n + 32) mod 256"
      by (rule of_char_of)
    moreover have "(of_char (CHR '' '') :: nat) = 32" by simp
    ultimately have "(n + 32) mod 256 = 32" using e by simp
    moreover have "n + 32 < 256" using r by simp
    ultimately have "n + 32 = 32" by simp
    with r show ?thesis by simp
  qed
qed

lemma split1_no_sep:
  assumes "sep \<notin> set xs"
  shows "split1 sep (xs @ sep # ys) = [xs, ys]"
proof -
  from assms have d: "dropWhile (\<lambda>c. c \<noteq> sep) (xs @ sep # ys) = sep # ys"
    by (induction xs) auto
  from assms have t: "takeWhile (\<lambda>c. c \<noteq> sep) (xs @ sep # ys) = xs"
    by (induction xs) auto
  show ?thesis by (simp add: split1_def d t)
qed

text \<open>
  A header that starts with "bearer " once lowered is six characters that are not
  spaces, a space, and the rest.
\<close>

lemma bearer_shape:
  assumes "startswith (lower a) ''bearer ''"
  shows "\<exists>w. a = w @ CHR '' '' # drop 7 a \<and> length w = 6 \<and> CHR '' '' \<notin> set w"
proof -
  have l7: "length ''bearer '' = 7" by simp
  from assms have t: "map lower_char (take 7 a) = ''bearer ''"
    unfolding startswith_def lower_def l7 by (simp only: take_map)
  then have "length (map lower_char (take 7 a)) = 7" by (simp only: l7)
  then have len: "length (take 7 a) = 7" by (simp only: length_map)
  then obtain c0 c1 c2 c3 c4 c5 c6 where s: "take 7 a = [c0, c1, c2, c3, c4, c5, c6]"
    by (auto simp: eval_nat_numeral length_Suc_conv simp del: length_take)
  with t have e: "lower_char c0 = CHR ''b''" "lower_char c1 = CHR ''e''"
    "lower_char c2 = CHR ''a''" "lower_char c3 = CHR ''r''" "lower_char c4 = CHR ''e''"
    "lower_char c5 = CHR ''r''" "lower_char c6 = CHR '' ''" by simp_all
  then have c6: "c6 = CHR '' ''" by (simp add: lower_char_space)
  from e have ne: "CHR '' '' \<notin> set [c0, c1, c2, c3, c4, c5]"
    using lower_char_space_fix by auto
  have "a = take 7 a @ drop 7 a" by simp
  then have "a = [c0, c1, c2, c3, c4, c5] @ CHR '' '' # drop 7 a"
    using s c6 by simp
  with ne show ?thesis by (intro exI [of _ "[c0, c1, c2, c3, c4, c5]"]) simp
qed

lemma bearer_token:
  assumes "startswith (lower a) ''bearer ''"
  shows "index (split1 CHR '' '' a) 1 = Inr (drop 7 a)"
proof -
  from bearer_shape [OF assms] obtain w where
    a: "a = w @ CHR '' '' # drop 7 a" and w: "CHR '' '' \<notin> set w" by blast
  have "split1 CHR '' '' (w @ CHR '' '' # drop 7 a) = [w, drop 7 a]"
    using w by (rule split1_no_sep)
  with a have "split1 CHR '' '' a = [w, drop 7 a]" by simp
  then show ?thesis by (simp add: index_def)
qed

section \<open>The access gate\<close>


lemma startswith_bearer:
  "startswith (lower a) ''bearer '' \<longleftrightarrow> 7 \<le> length a \<and> lower (take 7 a) = lower ''Bearer ''"
proof -
  have l7: "length ''bearer '' = 7" by simp
  have lb: "lower ''Bearer '' = ''bearer ''" by code_simp
  have tm: "take 7 (lower a) = lower (take 7 a)" by (simp add: lower_def take_map)
  show ?thesis
  proof
    assume s: "startswith (lower a) ''bearer ''"
    then have e: "lower (take 7 a) = ''bearer ''" unfolding startswith_def l7 tm .
    then have "length (lower (take 7 a)) = 7" by (simp only: l7)
    then have "7 \<le> length a" by (simp add: lower_def)
    with e lb show "7 \<le> length a \<and> lower (take 7 a) = lower ''Bearer ''" by simp
  next
    assume "7 \<le> length a \<and> lower (take 7 a) = lower ''Bearer ''"
    then show "startswith (lower a) ''bearer ''"
      unfolding startswith_def l7 tm lb by simp
  qed
qed

lemma require_admin_eq:
  "require_admin T auth = (if spec_authorize T auth then Inr () else Inl unauthorized)"
proof (cases auth)
  case None
  then show ?thesis by (auto simp: require_admin_def spec_authorize_def unauthorized_def)
next
  case (Some a)
  show ?thesis
  proof (cases "startswith (lower a) ''bearer ''")
    case True
    then have ne: "a \<noteq> []" by (auto simp: startswith_def lower_def)
    from True have sp: "7 \<le> length a \<and> lower (take 7 a) = lower ''Bearer ''"
      unfolding startswith_bearer .
    from bearer_token [OF True] ne True Some sp show ?thesis
      by (auto simp: require_admin_def spec_authorize_def unauthorized_def)
  next
    case False
    then have sp: "\<not> (7 \<le> length a \<and> lower (take 7 a) = lower ''Bearer '')"
      unfolding startswith_bearer .
    from False Some sp show ?thesis
      by (auto simp: require_admin_def spec_authorize_def unauthorized_def)
  qed
qed

text \<open>
  Claim C1. A request to a gated route (create, update or delete a project) is
  authorized exactly when a non-empty secret is configured, the Authorization header
  is present and begins with "Bearer " in any case of letters, and the rest of the
  header is the secret. Otherwise the route answers 401 Unauthorized and the store is
  returned as it was; when authorized, the route is its handler.
\<close>

theorem C1_access_gate:
  "(require_admin T auth = Inr ()) = spec_authorize T auth
   \<and> require_admin T auth = (if spec_authorize T auth then Inr () else Inl unauthorized)
   \<and> post_api_projects lib T auth p db =
       (if spec_authorize T auth then create_project lib p db else (Inl unauthorized, db))
   \<and> put_api_projects lib T auth pid p db =
       (if spec_authorize T auth then update_project lib pid p db else (Inl unauthorized, db))
   \<and> delete_api_projects lib T auth pid db =
       (if spec_authorize T auth then delete_project lib pid db else (Inl unauthorized, db))
   \<and> status_code_of (Inl unauthorized :: exn + unit) = 401"
  by (simp add: require_admin_eq post_api_projects_def put_api_projects_def
        delete_api_projects_def Depends_def unauthorized_def)

section \<open>Updating and deleting one document\<close>

lemma set_first_filter:
  "filter (\<lambda>d. doc_id d \<noteq> k) (fst (set_first k new ds)) = filter (\<lambda>d. doc_id d \<noteq> k) ds"
  by (induction ds) (auto split: prod.splits)

lemma set_first_unmatched:
  "k \<notin> doc_id ` set ds \<Longrightarrow> set_first k new ds = (ds, 0)"
  by (induction ds) auto

lemma set_first_matched:
  "k \<notin> doc_id ` set pre \<Longrightarrow> doc_id d = k \<Longrightarrow>
   set_first k new (pre @ d # post) = (pre @ d\<lparr>doc_fields := new\<rparr> # post, 1)"
  by (induction pre) auto

lemma first_match:
  "k \<in> doc_id ` set ds \<Longrightarrow>
   \<exists>pre d post. ds = pre @ d # post \<and> doc_id d = k \<and> k \<notin> doc_id ` set pre"
proof (induction ds)
  case Nil
  then show ?case by simp
next
  case (Cons a ds)
  show ?case
  proof (cases "doc_id a = k")
    case True
    then have "a # ds = [] @ a # ds \<and> doc_id a = k \<and> k \<notin> doc_id ` set []" by simp
    then show ?thesis by blast
  next
    case False
    with Cons.prems have "k \<in> doc_id ` set ds" by auto
    from Cons.IH [OF this] obtain pre d post where
      "ds = pre @ d # post" "doc_id d = k" "k \<notin> doc_id ` set pre" by blast
    with False have "a # ds = (a # pre) @ d # post \<and> doc_id d = k \<and> k \<notin> doc_id ` set (a # pre)"
      by auto
    then show ?thesis by blast
  qed
qed

lemma delete_one_filter:
  "filter (\<lambda>d. doc_id d \<noteq> k) (fst (delete_one k ds)) = filter (\<lambda>d. doc_id d \<noteq> k) ds"
  by (induction ds) (auto split: prod.splits)

lemma delete_one_unmatched:
  "k \<notin> doc_id ` set ds \<Longrightarrow> delete_one k ds = (ds, 0)"
  by (induction ds) auto

lemma delete_one_matched:
  "k \<notin> doc_id ` set pre \<Longrightarrow> doc_id d = k \<Longrightarrow>
   delete_one k (pre @ d # post) = (pre @ post, 1)"
  by (induction pre) auto

lemma set_first_cases:
  "set_first k new ds = (ds, 0) \<or>
   (\<exists>pre d post. ds = pre @ d # post \<and> set_first k new ds = (pre @ d\<lparr>doc_fields := new\<rparr> # post, 1))"
proof (cases "k \<in> doc_id ` set ds")
  case True
  from first_match [OF this] obtain pre d post where
    "ds = pre @ d # post" "doc_id d = k" "k \<notin> doc_id ` set pre" by blast
  then show ?thesis using set_first_matched [of k pre d new post] by auto
next
  case False
  then show ?thesis by (simp add: set_first_unmatched)
qed

lemma delete_one_cases:
  "delete_one k ds = (ds, 0) \<or>
   (\<exists>pre d post. ds = pre @ d # post \<and> delete_one k ds = (pre @ post, 1))"
proof (cases "k \<in> doc_id ` set ds")
  case True
  from first_match [OF this] obtain pre d post where
    "ds = pre @ d # post" "doc_id d = k" "k \<notin> doc_id ` set pre" by blast
  then show ?thesis using delete_one_matched [of k pre d post] by auto
next
  case False
  then show ?thesis by (simp add: delete_one_unmatched)
qed

lemma swap_size: "size (add_mset a M - add_mset b M) \<le> 1"
proof -
  have "add_mset a M - add_mset b M = ({#a#} + M) - ({#b#} + M)" by simp
  also have "\<dots> = {#a#} - {#b#}" by (rule add_diff_cancel_right)
  finally show ?thesis by (cases "a = b") simp_all
qed

lemma set_first_size:
  "size (mset ds - mset (fst (set_first k new ds))) \<le> 1 \<and>
   size (mset (fst (set_first k new ds)) - mset ds) \<le> 1"
proof -
  from set_first_cases [of k new ds] show ?thesis
  proof
    assume "set_first k new ds = (ds, 0)"
    then show ?thesis by simp
  next
    assume "\<exists>pre d post. ds = pre @ d # post \<and>
      set_first k new ds = (pre @ d\<lparr>doc_fields := new\<rparr> # post, 1)"
    then obtain pre d post where ds: "ds = pre @ d # post"
      and u: "set_first k new ds = (pre @ d\<lparr>doc_fields := new\<rparr> # post, 1)" by blast
    define M where "M = mset pre + mset post"
    have a: "mset ds = add_mset d M" by (simp add: ds M_def)
    have b: "mset (fst (set_first k new ds)) = add_mset (d\<lparr>doc_fields := new\<rparr>) M"
      by (simp add: u M_def)
    have s1: "size (add_mset d M - add_mset (d\<lparr>doc_fields := new\<rparr>) M) \<le> 1"
      by (rule swap_size)
    have s2: "size (add_mset (d\<lparr>doc_fields := new\<rparr>) M - add_mset d M) \<le> 1"
      by (rule swap_size)
    show ?thesis using s1 s2 by (simp only: a b)
  qed
qed

lemma delete_one_size:
  "size (mset ds - mset (fst (delete_one k ds))) \<le> 1 \<and>
   size (mset (fst (delete_one k ds)) - mset ds) \<le> 1"
proof -
  from delete_one_cases [of k ds] show ?thesis
  proof
    assume "delete_one k ds = (ds, 0)"
    then show ?thesis by simp
  next
    assume "\<exists>pre d post. ds = pre @ d # post \<and> delete_one k ds = (pre @ post, 1)"
    then obtain pre d post where ds: "ds = pre @ d # post"
      and u: "delete_one k ds = (pre @ post, 1)" by blast
    define M where "M = mset pre + mset post"
    have a: "mset ds = add_mset d M" by (simp add: ds M_def)
    have b: "mset (fst (delete_one k ds)) = M" by (simp add: u M_def)
    show ?thesis unfolding a b by simp
  qed
qed

section \<open>Concrete requests\<close>

lemma demo_authorized: "spec_authorize ''s3cret'' (Some ''Bearer s3cret'')"
  by code_simp

lemma demo_unauthorized: "\<not> spec_authorize ''s3cret'' None"
  by (simp add: spec_authorize_def)

lemma demo_invalid_id: "\<not> is_valid hex24 ''not-an-id''"
  by (simp add: hex24_def)



section \<open>Identifiers that are not legal\<close>

text \<open>
  Claim C4, as stated, fails: the gate runs before the handler, so a request that does
  not pass the gate is answered 401 whatever its identifier is. Here an update and a
  delete carry no Authorization header and an identifier that is not legal, and both
  are answered 401, not 400.
\<close>

theorem C4_unauthorized_invalid_id_counterexample:
  "\<not> is_valid hex24 ''not-an-id''
   \<and> put_api_projects hex24 ''s3cret'' None ''not-an-id'' (demo_project ''new'' 0) (Some demo_store)
       = (Inl (HTTPException 401 ''Unauthorized''), Some demo_store)
   \<and> delete_api_projects hex24 ''s3cret'' None ''not-an-id'' (Some demo_store)
       = (Inl (HTTPException 401 ''Unauthorized''), Some demo_store)"
  by (simp add: demo_invalid_id put_api_projects_def delete_api_projects_def Depends_def
        require_admin_def)

text \<open>
  Claim C4, amended. An update or a delete whose identifier is not a legal store
  identifier is answered 400 "Invalid id" when the request passes the gate, and 401
  when it does not; in both cases the store is returned as it was.
\<close>

theorem C4_invalid_id_bad_request:
  assumes "\<not> is_valid lib pid"
  shows "put_api_projects lib T auth pid p db =
           (if spec_authorize T auth then (Inl (HTTPException 400 ''Invalid id''), db)
            else (Inl unauthorized, db))
         \<and> delete_api_projects lib T auth pid db =
           (if spec_authorize T auth then (Inl (HTTPException 400 ''Invalid id''), db)
            else (Inl unauthorized, db))"
  using assms
  by (simp add: put_api_projects_def delete_api_projects_def Depends_def require_admin_eq
        update_project_def delete_project_def)

text \<open>The amended claim at an authorized request with the identifier "not-an-id".\<close>

theorem C4_invalid_id_bad_request_witness:
  "\<not> is_valid hex24 ''not-an-id''
   \<and> put_api_projects hex24 ''s3cret'' (Some ''Bearer s3cret'') ''not-an-id''
         (demo_project ''new'' 0) (Some demo_store)
       = (Inl (HTTPException 400 ''Invalid id''), Some demo_store)
   \<and> delete_api_projects hex24 ''s3cret'' (Some ''Bearer s3cret'') ''not-an-id'' (Some demo_store)
       = (Inl (HTTPException 400 ''Invalid id''), Some demo_store)"
  using C4_invalid_id_bad_request [OF demo_invalid_id, of "''s3cret''" "Some ''Bearer s3cret''"
      "demo_project ''new'' 0" "Some demo_store"]
  by (simp add: demo_authorized demo_invalid_id)

section \<open>Listing without a connection\<close>

text \<open>
  Claim C8 says that listing answers with an empty sequence when there is no store
  connection. The code does not: \<open>ensure_seed_projects\<close> returns early when \<open>db\<close>
  is \<open>None\<close>, and \<open>list_projects\<close> then subscripts \<open>None\<close>, which raises; the
  framework answers 500.
\<close>

theorem C8_listing_without_connection:
  "list_projects lib tie None = (Inl TypeError, None)
   \<and> status_code_of (fst (list_projects lib tie None)) = 500"
  by (simp add: list_projects_def ensure_seed_projects_def)

section \<open>Updating a project\<close>




section \<open>The frame of update and delete\<close>

lemma only_touches_refl: "only_touches k db db"
  by (simp add: only_touches_def split: option.splits)

lemma update_project_frame:
  "only_touches (ObjectId lib pid) db (snd (update_project lib pid p db))"
proof (cases db)
  case None
  then show ?thesis by (simp add: update_project_def only_touches_def)
next
  case (Some st)
  obtain docs n where u: "set_first (ObjectId lib pid) p (project_collection st) = (docs, n)"
    by (cases "set_first (ObjectId lib pid) p (project_collection st)")
  then have docs: "docs = fst (set_first (ObjectId lib pid) p (project_collection st))" by simp
  show ?thesis
  proof (cases "is_valid lib pid \<and> int64 (order p)")
    case True
    have f: "filter (\<lambda>d. doc_id d \<noteq> ObjectId lib pid) docs =
      filter (\<lambda>d. doc_id d \<noteq> ObjectId lib pid) (project_collection st)"
      unfolding docs by (rule set_first_filter)
    have z: "size (mset (project_collection st) - mset docs) \<le> 1 \<and>
      size (mset docs - mset (project_collection st)) \<le> 1"
      unfolding docs by (rule set_first_size)
    from True Some f z show ?thesis
      by (simp add: update_project_def update_one_def only_touches_def u)
  next
    case False
    then show ?thesis
      by (auto simp: update_project_def update_one_def only_touches_refl Some)
  qed
qed

lemma delete_project_frame:
  "only_touches (ObjectId lib pid) db (snd (delete_project lib pid db))"
proof (cases db)
  case None
  then show ?thesis by (simp add: delete_project_def only_touches_def)
next
  case (Some st)
  obtain docs n where u: "delete_one (ObjectId lib pid) (project_collection st) = (docs, n)"
    by (cases "delete_one (ObjectId lib pid) (project_collection st)")
  then have docs: "docs = fst (delete_one (ObjectId lib pid) (project_collection st))" by simp
  show ?thesis
  proof (cases "is_valid lib pid")
    case True
    have f: "filter (\<lambda>d. doc_id d \<noteq> ObjectId lib pid) docs =
      filter (\<lambda>d. doc_id d \<noteq> ObjectId lib pid) (project_collection st)"
      unfolding docs by (rule delete_one_filter)
    have z: "size (mset (project_collection st) - mset docs) \<le> 1 \<and>
      size (mset docs - mset (project_collection st)) \<le> 1"
      unfolding docs by (rule delete_one_size)
    from True Some f z show ?thesis
      by (simp add: delete_project_def only_touches_def u)
  next
    case False
    then show ?thesis by (simp add: delete_project_def only_touches_refl)
  qed
qed

text \<open>
  Claim C10. For every store and every identifier, an update or a delete, authorized
  or not, leaves every project record with another identifier as it was and where it
  was, changes at most one record, and leaves the message collection alone.
\<close>

theorem C10_update_delete_frame:
  "only_touches (ObjectId lib pid) db (snd (put_api_projects lib T auth pid p db))
   \<and> only_touches (ObjectId lib pid) db (snd (delete_api_projects lib T auth pid db))"
  by (simp add: put_api_projects_def delete_api_projects_def Depends_def require_admin_eq
        update_project_frame delete_project_frame only_touches_refl)

section \<open>Listing and seeding\<close>

lemma seeded_fields: "map doc_fields (seeded n ps) = ps"
  by (induction ps arbitrary: n) simp_all

lemma seeded_ids: "map doc_id (seeded n ps) = [n..<n + length ps]"
proof (induction ps arbitrary: n)
  case Nil
  then show ?case by simp
next
  case (Cons p ps)
  have "[n..<n + length (p # ps)] = n # [Suc n..<Suc n + length ps]"
    by (simp add: upt_conv_Cons del: upt_Suc)
  with Cons.IH [of "Suc n"] show ?case by simp
qed

lemma create_all_connected:
  "create_all lib ps (Some st) =
     (Inr (), Some (st\<lparr>project_collection := project_collection st @ seeded (next_oid st) ps,
                      next_oid := next_oid st + length ps\<rparr>))"
proof (induction ps arbitrary: st)
  case Nil
  then show ?case by simp
next
  case (Cons p ps)
  show ?case
    by (simp add: create_document_project_def Cons.IH)
qed

lemma ensure_seed_empty:
  assumes "project_collection st = []"
  shows "ensure_seed_projects lib (Some st) =
     (Inr (), Some (st\<lparr>project_collection := seeded (next_oid st) SEED_PROJECTS,
                      next_oid := next_oid st + 4\<rparr>))"
proof -
  have l: "length SEED_PROJECTS = 4" by (simp add: SEED_PROJECTS_def)
  show ?thesis
    using assms by (simp add: ensure_seed_projects_def count_documents_def create_all_connected l)
qed

lemma ensure_seed_nonempty:
  assumes "project_collection st \<noteq> []"
  shows "ensure_seed_projects lib (Some st) = (Inr (), Some st)"
  using assms by (simp add: ensure_seed_projects_def count_documents_def)

text \<open>The sorted listing of the store: every document once, ascending by \<open>order\<close>,
  documents of equal \<open>order\<close> in the store's own order.\<close>

lemma find_sort_order_sorted:
  "sorted (map (\<lambda>d. order (doc_fields d)) (find_sort_order tie docs))"
  unfolding find_sort_order_def by (rule sorted_sort_key)

lemma find_sort_order_all: "mset (find_sort_order tie docs) = mset docs"
  by (simp add: find_sort_order_def)

lemma find_sort_order_ties:
  "sorted (map tie (filter (\<lambda>d. order (doc_fields d) = k) (find_sort_order tie docs)))"
proof -
  have "filter (\<lambda>d. order (doc_fields d) = k) (find_sort_order tie docs) =
        filter (\<lambda>d. order (doc_fields d) = k) (sort_key tie docs)"
    unfolding find_sort_order_def by (rule sort_key_stable)
  also have "\<dots> = sort_key tie (filter (\<lambda>d. order (doc_fields d) = k) docs)"
    by (rule filter_sort)
  finally show ?thesis by (simp only: sorted_sort_key)
qed

lemma find_sort_order_empty: "find_sort_order tie docs = [] \<longleftrightarrow> docs = []"
proof -
  have "length (find_sort_order tie docs) = length docs"
    by (simp add: find_sort_order_def)
  then show ?thesis by (metis length_0_conv)
qed

text \<open>No stored project gets through \<open>ProjectOut\<close>, so a listing of any is an exception.\<close>

lemma ProjectOut_raises: "ProjectOut_of lib i = Inl TypeError"
  by (simp add: ProjectOut_of_def call_def and_then_def)

lemma project_outs_raise: "items \<noteq> [] \<Longrightarrow> project_outs lib items = Inl TypeError"
  by (cases items) (simp_all add: ProjectOut_raises and_then_def)

lemma list_projects_store:
  "snd (list_projects lib tie (Some st)) =
     Some (if project_collection st = []
           then st\<lparr>project_collection := seeded (next_oid st) SEED_PROJECTS,
                   next_oid := next_oid st + 4\<rparr>
           else st)"
  by (simp add: list_projects_def ensure_seed_empty ensure_seed_nonempty)

lemma seeds_nonempty: "seeded n SEED_PROJECTS \<noteq> []"
  by (simp add: SEED_PROJECTS_def)

text \<open>
  Claim C2 says that listing answers with all project records, in non-decreasing
  \<open>order\<close>. The code does not answer with any: on every connected store the
  collection holds a record once it is seeded, the construction of \<open>ProjectOut\<close> for
  the first record raises \<open>TypeError\<close>, and the framework answers 500.
\<close>

theorem C2_listing_raises:
  "fst (list_projects lib tie (Some st)) = Inl TypeError
   \<and> status_code_of (fst (list_projects lib tie (Some st))) = 500"
proof -
  have "fst (list_projects lib tie (Some st)) = Inl TypeError"
  proof (cases "project_collection st = []")
    case True
    then show ?thesis
      by (simp add: list_projects_def ensure_seed_empty project_outs_raise
            find_sort_order_empty seeds_nonempty)
  next
    case False
    then show ?thesis
      by (simp add: list_projects_def ensure_seed_nonempty project_outs_raise
            find_sort_order_empty)
  qed
  then show ?thesis by simp
qed

text \<open>
  Claim C3. After a listing of an empty project collection the collection holds
  exactly the four seed projects, under four distinct identifiers; a second listing
  leaves the store as the first left it and inserts nothing. The same holds of
  \<open>ensure_seed_projects\<close> alone.
\<close>

theorem C3_seeding_once:
  assumes "project_collection st = []"
  shows "\<exists>st1.
     snd (list_projects lib tie (Some st)) = Some st1
     \<and> map doc_fields (project_collection st1) = SEED_PROJECTS
     \<and> length (project_collection st1) = 4
     \<and> distinct (map doc_id (project_collection st1))
     \<and> message_collection st1 = message_collection st
     \<and> snd (list_projects lib tie (Some st1)) = Some st1
     \<and> ensure_seed_projects lib (Some st) = (Inr (), Some st1)
     \<and> ensure_seed_projects lib (Some st1) = (Inr (), Some st1)"
proof -
  define st1 where "st1 = st\<lparr>project_collection := seeded (next_oid st) SEED_PROJECTS,
                         next_oid := next_oid st + 4\<rparr>"
  have l4: "length SEED_PROJECTS = 4" by (simp add: SEED_PROJECTS_def)
  have f: "map doc_fields (project_collection st1) = SEED_PROJECTS"
    by (simp add: st1_def seeded_fields)
  then have "length (map doc_fields (project_collection st1)) = 4" by (simp only: l4)
  then have n: "length (project_collection st1) = 4" by simp
  then have ne: "project_collection st1 \<noteq> []" by auto
  have ids: "map doc_id (project_collection st1) = [next_oid st..<next_oid st + 4]"
    by (simp add: st1_def seeded_ids l4)
  have d: "distinct (map doc_id (project_collection st1))" unfolding ids by simp
  have a: "snd (list_projects lib tie (Some st)) = Some st1"
    using assms by (simp add: list_projects_store st1_def)
  have b: "snd (list_projects lib tie (Some st1)) = Some st1"
    using ne by (simp add: list_projects_store)
  have m: "message_collection st1 = message_collection st" by (simp add: st1_def)
  have e1: "ensure_seed_projects lib (Some st) = (Inr (), Some st1)"
    using assms by (simp add: ensure_seed_empty st1_def)
  have e2: "ensure_seed_projects lib (Some st1) = (Inr (), Some st1)"
    using ne by (rule ensure_seed_nonempty)
  from a f n d m b e1 e2 show ?thesis by blast
qed

text \<open>Claim C3 at the empty store.\<close>

theorem C3_seeding_once_witness:
  "project_collection empty_store = []
   \<and> (\<exists>st1.
     snd (list_projects hex24 (\<lambda>d. 0) (Some empty_store)) = Some st1
     \<and> map doc_fields (project_collection st1) = SEED_PROJECTS
     \<and> length (project_collection st1) = 4
     \<and> distinct (map doc_id (project_collection st1))
     \<and> message_collection st1 = message_collection empty_store
     \<and> snd (list_projects hex24 (\<lambda>d. 0) (Some st1)) = Some st1
     \<and> ensure_seed_projects hex24 (Some empty_store) = (Inr (), Some st1)
     \<and> ensure_seed_projects hex24 (Some st1) = (Inr (), Some st1))"
proof -
  have e: "project_collection empty_store = []" by (simp add: empty_store_def)
  from C3_seeding_once [OF e, of hex24 "\<lambda>d. 0"] e show ?thesis by blast
qed

section \<open>Contact\<close>

lemma length_zero_padded: "length (zero_padded w n) = w"
  by (induction w arbitrary: n) simp_all

lemma digit_char:
  assumes "n < 10"
  shows "(of_char (''0123456789'' ! n) :: nat) = 48 + n"
proof -
  from assms have "n = 0 \<or> n = 1 \<or> n = 2 \<or> n = 3 \<or> n = 4 \<or> n = 5 \<or> n = 6 \<or> n = 7
    \<or> n = 8 \<or> n = 9" by arith
  then show ?thesis by (elim disjE) simp_all
qed

lemma read_digits_zero_padded:
  "n < 10 ^ w \<Longrightarrow> read_digits w (zero_padded w n @ rest) = Some (n, rest)"
proof (induction w arbitrary: n rest)
  case 0
  then show ?case by simp
next
  case (Suc w)
  from Suc.prems have q: "n div 10 < 10 ^ w" by (simp add: less_mult_imp_div_less mult.commute)
  have r: "n mod 10 < 10" by simp
  have "read_digits w (zero_padded w (n div 10) @ (''0123456789'' ! (n mod 10)) # rest)
          = Some (n div 10, (''0123456789'' ! (n mod 10)) # rest)"
    using q by (rule Suc.IH)
  then show ?case using digit_char [OF r] by simp
qed

lemma read4: "n \<le> 9999 \<Longrightarrow> read_digits 4 (zero_padded 4 n @ rest) = Some (n, rest)"
  by (rule read_digits_zero_padded) simp

lemma read2: "n < 100 \<Longrightarrow> read_digits 2 (zero_padded 2 n @ rest) = Some (n, rest)"
  by (rule read_digits_zero_padded) simp

lemma read6: "n < 1000000 \<Longrightarrow> read_digits 6 (zero_padded 6 n @ rest) = Some (n, rest)"
  by (rule read_digits_zero_padded) simp

lemma parse_isoformat:
  assumes "datetime_ok t"
  shows "parse_utc (isoformat t @ ''Z'') = Some t"
proof -
  from assms have b: "year t \<le> 9999" "month t < 100" "day t < 100" "hour t < 100"
    "minute t < 100" "second t < 100" "microsecond t < 1000000"
    by (simp_all add: datetime_ok_def)
  show ?thesis
  proof (cases "microsecond t = 0")
    case True
    then show ?thesis
      by (simp add: parse_utc_def isoformat_def read4 read2 b)
  next
    case False
    then show ?thesis
      by (simp add: parse_utc_def isoformat_def read4 read2 read6 b)
  qed
qed

text \<open>
  Claim C6, as stated, fails: the record holds the address as the validation returns
  it, not as it was given. With a validation that lowers the domain, as \<open>EmailStr\<close>
  does, the submission of "Ada@EXAMPLE.ORG" is stored as "Ada@example.org".
\<close>

theorem C6_address_normalised_counterexample:
  "post_api_contact lowering_email hex24 demo_time ''Ada'' ''Ada@EXAMPLE.ORG'' ''hi''
     (Some empty_store) =
     (Inr \<lparr>ok = True, received_at = ''2024-05-17T09:03:41.000250Z''\<rparr>,
      Some \<lparr>project_collection = [],
            message_collection =
              [\<lparr>doc_id = 0,
                doc_fields = \<lparr>Message.name = ''Ada'', email = ''Ada@example.org'',
                              message = ''hi''\<rparr>,
                doc_extra = []\<rparr>],
            next_oid = 1\<rparr>)
   \<and> ''Ada@example.org'' \<noteq> ''Ada@EXAMPLE.ORG''"
proof -
  have a: "lowering_email ''Ada@EXAMPLE.ORG'' = Some ''Ada@example.org''" by code_simp
  have b: "lowering_email ''Ada@example.org'' = Some ''Ada@example.org''" by code_simp
  have t: "isoformat demo_time @ ''Z'' = ''2024-05-17T09:03:41.000250Z''" by code_simp
  show ?thesis
    unfolding post_api_contact_def ContactIn_def contact_def MessageSchema_def
      create_document_message_def
    by (simp add: a b t empty_store_def)
qed

text \<open>
  Claim C6, amended. A contact submission whose e-mail address the validation rejects
  is answered with a validation error (422) and the store is returned as it was. A
  submission whose address is accepted appends exactly one record to the message
  collection, holding the given name and message and the address as the validation
  returns it, validated once for the request and once more for the record; that is
  the given address whenever the validation returns it unchanged. Should the second
  validation reject what the first returned, nothing is stored. The acknowledgement
  carries \<open>received_at\<close>, the ISO-8601 text of the clock reading followed by the
  letter Z, which reads back as that clock reading.
\<close>

theorem C6_contact_validates_and_persists:
  "(EmailStr e = None \<longrightarrow>
      post_api_contact EmailStr lib now n e m db = (Inl RequestValidationError, db))
   \<and> (EmailStr e = Some e1 \<and> EmailStr e1 = Some e2 \<longrightarrow>
      post_api_contact EmailStr lib now n e m (Some st) =
        (Inr \<lparr>ok = True, received_at = isoformat now @ ''Z''\<rparr>,
         Some (st\<lparr>message_collection :=
                     message_collection st @
                       [\<lparr>doc_id = next_oid st,
                         doc_fields = \<lparr>Message.name = n, email = e2, message = m\<rparr>,
                         doc_extra = []\<rparr>],
                   next_oid := Suc (next_oid st)\<rparr>)))
   \<and> (EmailStr e = Some e \<longrightarrow>
      post_api_contact EmailStr lib now n e m (Some st) =
        (Inr \<lparr>ok = True, received_at = isoformat now @ ''Z''\<rparr>,
         Some (st\<lparr>message_collection :=
                     message_collection st @
                       [\<lparr>doc_id = next_oid st,
                         doc_fields = \<lparr>Message.name = n, email = e, message = m\<rparr>,
                         doc_extra = []\<rparr>],
                   next_oid := Suc (next_oid st)\<rparr>)))
   \<and> (EmailStr e = Some e1 \<and> EmailStr e1 = None \<longrightarrow>
      post_api_contact EmailStr lib now n e m db = (Inl ValidationError, db))
   \<and> (datetime_ok now \<longrightarrow> parse_utc (isoformat now @ ''Z'') = Some now)
   \<and> status_code_of (Inl RequestValidationError :: exn + acknowledgement) = 422"
  by (simp add: post_api_contact_def ContactIn_def contact_def MessageSchema_def
        create_document_message_def parse_isoformat)

text \<open>
  The amended claim at the address "not-an-email", which holds no at sign, at the
  address "ada@example.org", and at the clock reading of 17 May 2024.
\<close>

theorem C6_contact_validates_and_persists_witness:
  "lowering_email ''not-an-email'' = None
   \<and> post_api_contact lowering_email hex24 demo_time ''Ada'' ''not-an-email'' ''hi''
         (Some empty_store) = (Inl RequestValidationError, Some empty_store)
   \<and> lowering_email ''ada@example.org'' = Some ''ada@example.org''
   \<and> post_api_contact lowering_email hex24 demo_time ''Ada'' ''ada@example.org'' ''hi''
         (Some empty_store) =
       (Inr \<lparr>ok = True, received_at = ''2024-05-17T09:03:41.000250Z''\<rparr>,
        Some \<lparr>project_collection = [],
              message_collection =
                [\<lparr>doc_id = 0,
                  doc_fields = \<lparr>Message.name = ''Ada'', email = ''ada@example.org'',
                                message = ''hi''\<rparr>,
                  doc_extra = []\<rparr>],
              next_oid = 1\<rparr>)
   \<and> datetime_ok demo_time
   \<and> parse_utc ''2024-05-17T09:03:41.000250Z'' = Some demo_time"
proof -
  have r: "lowering_email ''not-an-email'' = None" by code_simp
  have a: "lowering_email ''ada@example.org'' = Some ''ada@example.org''" by code_simp
  have t: "isoformat demo_time @ ''Z'' = ''2024-05-17T09:03:41.000250Z''" by code_simp
  have k: "datetime_ok demo_time" by (simp add: datetime_ok_def demo_time_def)
  note c = C6_contact_validates_and_persists [where EmailStr = lowering_email and lib = hex24
      and now = demo_time and n = "''Ada''" and m = "''hi''"]
  from c [where e = "''not-an-email''" and db = "Some empty_store"] r
  have 1: "post_api_contact lowering_email hex24 demo_time ''Ada'' ''not-an-email'' ''hi''
         (Some empty_store) = (Inl RequestValidationError, Some empty_store)" by blast
  from c [where e = "''ada@example.org''" and st = empty_store] a
  have 2: "post_api_contact lowering_email hex24 demo_time ''Ada'' ''ada@example.org'' ''hi''
         (Some empty_store) =
        (Inr \<lparr>ok = True, received_at = isoformat demo_time @ ''Z''\<rparr>,
         Some (empty_store\<lparr>message_collection :=
                     message_collection empty_store @
                       [\<lparr>doc_id = next_oid empty_store,
                         doc_fields = \<lparr>Message.name = ''Ada'', email = ''ada@example.org'', message = ''hi''\<rparr>,
                         doc_extra = []\<rparr>],
                   next_oid := Suc (next_oid empty_store)\<rparr>))" by blast
  from c [where e = "''x''"] k
  have 3: "parse_utc (isoformat demo_time @ ''Z'') = Some demo_time" by blast
  from r a 1 2 3 k show ?thesis unfolding t by (simp add: empty_store_def)
qed

section \<open>Now playing\<close>

lemma refresh_failure_no_token:
  assumes "token_refresh_fails c s r prov"
  shows "\<not> truthy (get_spotify_access_token c s r prov)"
  using assms
  by (auto simp: token_refresh_fails_def get_spotify_access_token_def and_then_def
           split: sum.splits if_splits)

lemma unset_no_token:
  assumes "\<not> (env_set c \<and> env_set s \<and> env_set r)"
  shows "\<not> truthy (get_spotify_access_token c s r prov)"
  using assms by (simp add: get_spotify_access_token_def)

lemma get_raises_alike:
  "(\<exists>e. get v k d = Inl e) \<longleftrightarrow> (\<exists>e. get v k' d' = Inl e)"
  by (cases v) (simp_all split: option.splits)

lemma unavailable_try:
  assumes "playback_unavailable prov token"
  shows "now_playing_try prov token = Inr not_playing \<or> (\<exists>e. now_playing_try prov token = Inl e)"
proof (cases "currently_playing prov token")
  case (Inl e)
  then show ?thesis by (simp add: now_playing_try_def and_then_def)
next
  case (Inr resp)
  note r = this
  show ?thesis
  proof (cases "status_code resp = 200")
    case False
    with r show ?thesis by (simp add: now_playing_try_def and_then_def)
  next
    case True
    note ok = this
    show ?thesis
    proof (cases "body_json resp")
      case (Inl e)
      with r ok show ?thesis by (simp add: now_playing_try_def and_then_def)
    next
      case (Inr data)
      note b = this
      show ?thesis
      proof (cases "get data ''item'' JNull")
        case (Inl e)
        then have "\<exists>e. get data ''is_playing'' (JBool False) = Inl e"
          using get_raises_alike [of data "''item''" JNull "''is_playing''" "JBool False"] by blast
        then obtain e' where "get data ''is_playing'' (JBool False) = Inl e'" by blast
        with r ok b show ?thesis by (simp add: now_playing_try_def and_then_def)
      next
        case (Inr item)
        with assms r ok b have f: "\<not> truthy item"
          by (simp add: playback_unavailable_def)
        show ?thesis
        proof (cases "get data ''is_playing'' (JBool False)")
          case (Inl e)
          with r ok b show ?thesis by (simp add: now_playing_try_def and_then_def)
        next
          case (Inr p)
          with r ok b \<open>get data ''item'' JNull = Inr item\<close> f show ?thesis
            by (simp add: now_playing_try_def and_then_def Let_def)
        qed
      qed
    qed
  qed
qed

lemma now_playing_total: "\<exists>answer. now_playing c s r prov = Inr answer"
  by (simp add: now_playing_def Let_def split: sum.splits)

lemma now_playing_no_token:
  "\<not> truthy (get_spotify_access_token c s r prov) \<Longrightarrow> now_playing c s r prov = Inr not_playing"
  by (simp add: now_playing_def Let_def)

lemma now_playing_try_fails:
  "now_playing_try prov (get_spotify_access_token c s r prov) = Inr not_playing
     \<or> (\<exists>e. now_playing_try prov (get_spotify_access_token c s r prov) = Inl e)
   \<Longrightarrow> now_playing c s r prov = Inr not_playing"
  by (auto simp: now_playing_def Let_def)

text \<open>
  Claim C7. The now-playing operation always returns an answer, never an exception.
  It returns the degraded answer \<open>{isPlaying: false}\<close> whenever one of the three
  credentials is unset or empty, the token refresh fails (the call raises, the
  status is not 200, or the body is malformed), the playback-status call raises or
  answers 204 or any status other than 200, the body of a 200 answer holds no
  playable item, or anything in the handling of the answer raises.
\<close>

theorem C7_now_playing_degrades:
  "(\<exists>answer. now_playing c s r prov = Inr answer)
   \<and> (\<not> (env_set c \<and> env_set s \<and> env_set r)
        \<or> token_refresh_fails c s r prov
        \<or> playback_unavailable prov (get_spotify_access_token c s r prov)
        \<or> (\<exists>e. now_playing_try prov (get_spotify_access_token c s r prov) = Inl e)
      \<longrightarrow> now_playing c s r prov = Inr not_playing)"
proof (intro conjI impI)
  show "\<exists>answer. now_playing c s r prov = Inr answer" by (rule now_playing_total)
next
  assume "\<not> (env_set c \<and> env_set s \<and> env_set r)
        \<or> token_refresh_fails c s r prov
        \<or> playback_unavailable prov (get_spotify_access_token c s r prov)
        \<or> (\<exists>e. now_playing_try prov (get_spotify_access_token c s r prov) = Inl e)"
  then consider
      (unset) "\<not> (env_set c \<and> env_set s \<and> env_set r)"
    | (refresh) "token_refresh_fails c s r prov"
    | (playback) "playback_unavailable prov (get_spotify_access_token c s r prov)"
    | (raised) "\<exists>e. now_playing_try prov (get_spotify_access_token c s r prov) = Inl e"
    by blast
  then show "now_playing c s r prov = Inr not_playing"
  proof cases
    case unset
    then show ?thesis by (intro now_playing_no_token unset_no_token)
  next
    case refresh
    then show ?thesis by (intro now_playing_no_token refresh_failure_no_token)
  next
    case playback
    from unavailable_try [OF this] show ?thesis by (rule now_playing_try_fails)
  next
    case raised
    then show ?thesis by (intro now_playing_try_fails disjI2)
  qed
qed

text \<open>
  Claim C7 at a provider that cannot be reached, at one that answers 204, and with
  the client secret unset.
\<close>

theorem C7_now_playing_degrades_witness:
  "token_refresh_fails (Some ''id'') (Some ''secret'') (Some ''refresh'') provider_down
   \<and> now_playing (Some ''id'') (Some ''secret'') (Some ''refresh'') provider_down = Inr not_playing
   \<and> playback_unavailable provider_idle
        (get_spotify_access_token (Some ''id'') (Some ''secret'') (Some ''refresh'') provider_idle)
   \<and> now_playing (Some ''id'') (Some ''secret'') (Some ''refresh'') provider_idle = Inr not_playing
   \<and> \<not> (env_set (Some ''id'') \<and> env_set None \<and> env_set (Some ''refresh''))
   \<and> now_playing (Some ''id'') None (Some ''refresh'') provider_playing = Inr not_playing"
proof -
  have a: "token_refresh_fails (Some ''id'') (Some ''secret'') (Some ''refresh'') provider_down"
    by (simp add: token_refresh_fails_def provider_down_def)
  have b: "playback_unavailable provider_idle
        (get_spotify_access_token (Some ''id'') (Some ''secret'') (Some ''refresh'') provider_idle)"
    by (simp add: playback_unavailable_def provider_idle_def)
  have c: "\<not> (env_set (Some ''id'') \<and> env_set None \<and> env_set (Some ''refresh''))" by simp
  from a C7_now_playing_degrades [of "Some ''id''" "Some ''secret''" "Some ''refresh''" provider_down]
  have 1: "now_playing (Some ''id'') (Some ''secret'') (Some ''refresh'') provider_down = Inr not_playing"
    by blast
  from b C7_now_playing_degrades [of "Some ''id''" "Some ''secret''" "Some ''refresh''" provider_idle]
  have 2: "now_playing (Some ''id'') (Some ''secret'') (Some ''refresh'') provider_idle = Inr not_playing"
    by blast
  from c C7_now_playing_degrades [of "Some ''id''" None "Some ''refresh''" provider_playing]
  have 3: "now_playing (Some ''id'') None (Some ''refresh'') provider_playing = Inr not_playing"
    by blast
  from a b c 1 2 3 show ?thesis by blast
qed

section \<open>Diagnostics\<close>

lemma test_database_connected:
  "test_database getenv (Some conn) list_collection_names =
     (case list_collection_names conn of
        Inr names \<Rightarrow>
          \<lparr>backend = check_mark @ '' Running'',
           database = check_mark @ '' Connected & Working'',
           database_url = Some (if env_set (getenv ''DATABASE_URL'')
                                then check_mark @ '' Set'' else cross_mark @ '' Not Set''),
           database_name = Some (or_else (getenv ''DATABASE_NAME'') ''Unknown''),
           connection_status = ''Not Connected'',
           collections = take 10 names\<rparr>
      | Inl msg \<Rightarrow>
          \<lparr>backend = check_mark @ '' Running'',
           database = warning_sign @ '' Connected but Error: '' @ take 50 msg,
           database_url = Some (if env_set (getenv ''DATABASE_URL'')
                                then check_mark @ '' Set'' else cross_mark @ '' Not Set''),
           database_name = Some (or_else (getenv ''DATABASE_NAME'') ''Unknown''),
           connection_status = ''Not Connected'',
           collections = []\<rparr>)"
  by (cases "list_collection_names conn") (simp_all add: test_database_def Let_def)

lemma test_database_unavailable:
  "test_database getenv None list_collection_names =
     \<lparr>backend = check_mark @ '' Running'',
      database = cross_mark @ '' Not Available'',
      database_url = None, database_name = None,
      connection_status = ''Not Connected'', collections = []\<rparr>"
  by (simp add: test_database_def Let_def)

lemma database_name_reported:
  "database_name (test_database getenv (Some conn) list_collection_names)
     = Some (or_else (getenv ''DATABASE_NAME'') ''Unknown'')"
  by (cases "list_collection_names conn") (simp_all add: test_database_connected)


lemma other_variable:
  "(getenv(''DATABASE_URL'' \<mapsto> url)) ''DATABASE_NAME'' = getenv ''DATABASE_NAME''"
  by simp

lemma url_set:
  "url \<noteq> [] \<Longrightarrow> env_set ((getenv(''DATABASE_URL'' \<mapsto> url)) ''DATABASE_URL'')"
  by simp

text \<open>
  Claim C9, as stated, fails: with a store handle at hand the answer carries the
  database name itself. Two environments that differ in both values give different
  answers, one naming "alpha" and the other "beta".
\<close>

theorem C9_database_name_revealed_counterexample:
  "test_database (demo_env ''mongodb://one'' ''alpha'') (Some empty_store) (\<lambda>conn. Inr [])
     \<noteq> test_database (demo_env ''mongodb://two'' ''beta'') (Some empty_store) (\<lambda>conn. Inr [])
   \<and> database_name
         (test_database (demo_env ''mongodb://one'' ''alpha'') (Some empty_store) (\<lambda>conn. Inr []))
       = Some ''alpha''
   \<and> database_name
         (test_database (demo_env ''mongodb://two'' ''beta'') (Some empty_store) (\<lambda>conn. Inr []))
       = Some ''beta''"
proof -
  have a: "database_name
         (test_database (demo_env ''mongodb://one'' ''alpha'') (Some empty_store) (\<lambda>conn. Inr []))
       = Some ''alpha''"
    by (simp add: database_name_reported demo_env_def)
  have b: "database_name
         (test_database (demo_env ''mongodb://two'' ''beta'') (Some empty_store) (\<lambda>conn. Inr []))
       = Some ''beta''"
    by (simp add: database_name_reported demo_env_def)
  have "test_database (demo_env ''mongodb://one'' ''alpha'') (Some empty_store) (\<lambda>conn. Inr [])
     \<noteq> test_database (demo_env ''mongodb://two'' ''beta'') (Some empty_store) (\<lambda>conn. Inr [])"
  proof
    assume "test_database (demo_env ''mongodb://one'' ''alpha'') (Some empty_store) (\<lambda>conn. Inr [])
      = test_database (demo_env ''mongodb://two'' ''beta'') (Some empty_store) (\<lambda>conn. Inr [])"
    then have "database_name
         (test_database (demo_env ''mongodb://one'' ''alpha'') (Some empty_store) (\<lambda>conn. Inr []))
      = database_name
         (test_database (demo_env ''mongodb://two'' ''beta'') (Some empty_store) (\<lambda>conn. Inr []))"
      by (rule arg_cong)
    then have "Some ''alpha'' = Some ''beta''" unfolding a b .
    then show False by simp
  qed
  with a b show ?thesis by blast
qed

text \<open>
  Claim C9, amended. The diagnostics report of the connection string only whether it
  is set: two environments that differ only in the non-empty value of the connection
  string give the same answer. The database name is reported as it is, or as
  "Unknown" when it is unset or empty, whenever a store handle exists; without a
  handle the answer does not depend on the environment at all.
\<close>

theorem C9_connection_string_hidden:
  assumes "url1 \<noteq> []" and "url2 \<noteq> []"
  shows "test_database (getenv(''DATABASE_URL'' \<mapsto> url1)) db list_collection_names
           = test_database (getenv(''DATABASE_URL'' \<mapsto> url2)) db list_collection_names
         \<and> test_database getenv None list_collection_names
           = test_database getenv' None list_collection_names
         \<and> database_name (test_database getenv (Some conn) list_collection_names)
           = Some (or_else (getenv ''DATABASE_NAME'') ''Unknown'')"
proof (intro conjI)
  show "test_database (getenv(''DATABASE_URL'' \<mapsto> url1)) db list_collection_names
           = test_database (getenv(''DATABASE_URL'' \<mapsto> url2)) db list_collection_names"
  proof (cases db)
    case None
    then show ?thesis by (simp only: test_database_unavailable)
  next
    case (Some h)
    show ?thesis
      unfolding Some test_database_connected other_variable
      using url_set [OF assms(1), of getenv] url_set [OF assms(2), of getenv]
      by (simp split: sum.splits)
  qed
next
  show "test_database getenv None list_collection_names
           = test_database getenv' None list_collection_names"
    by (simp only: test_database_unavailable)
next
  show "database_name (test_database getenv (Some conn) list_collection_names)
           = Some (or_else (getenv ''DATABASE_NAME'') ''Unknown'')"
    by (rule database_name_reported)
qed

text \<open>The amended claim at two connection strings and the database name "alpha".\<close>

theorem C9_connection_string_hidden_witness:
  "''mongodb://one'' \<noteq> [] \<and> ''mongodb://two'' \<noteq> []
   \<and> test_database (demo_env ''mongodb://one'' ''alpha'') (Some empty_store) (\<lambda>conn. Inr [''project''])
       = test_database (demo_env ''mongodb://two'' ''alpha'') (Some empty_store) (\<lambda>conn. Inr [''project''])
   \<and> database_name
         (test_database (demo_env ''mongodb://one'' ''alpha'') (Some empty_store) (\<lambda>conn. Inr [''project'']))
       = Some ''alpha''"
proof -
  have e: "demo_env ''mongodb://one'' ''alpha'' =
           (demo_env ''mongodb://two'' ''alpha'')(''DATABASE_URL'' \<mapsto> ''mongodb://one'')"
    by (rule ext) (simp add: demo_env_def)
  have f: "demo_env ''mongodb://two'' ''alpha'' =
           (demo_env ''mongodb://two'' ''alpha'')(''DATABASE_URL'' \<mapsto> ''mongodb://two'')"
    by (rule ext) (simp add: demo_env_def)
  have n: "''mongodb://one'' \<noteq> []" "''mongodb://two'' \<noteq> []" by simp_all
  have g: "or_else (demo_env ''mongodb://one'' ''alpha'' ''DATABASE_NAME'') ''Unknown'' = ''alpha''"
    by (simp add: demo_env_def)
  from C9_connection_string_hidden [OF n, where getenv = "demo_env ''mongodb://two'' ''alpha''"
      and db = "Some empty_store" and list_collection_names = "\<lambda>conn. Inr [''project'']"]
  have 1: "test_database (demo_env ''mongodb://one'' ''alpha'') (Some empty_store) (\<lambda>conn. Inr [''project''])
       = test_database (demo_env ''mongodb://two'' ''alpha'') (Some empty_store) (\<lambda>conn. Inr [''project''])"
    using e f by simp
  from C9_connection_string_hidden [OF n, where getenv = "demo_env ''mongodb://one'' ''alpha''"
      and conn = empty_store and list_collection_names = "\<lambda>conn. Inr [''project'']"]
  have 2: "database_name
         (test_database (demo_env ''mongodb://one'' ''alpha'') (Some empty_store) (\<lambda>conn. Inr [''project'']))
       = Some ''alpha''"
    unfolding g by blast
  from n 1 2 show ?thesis by blast
qed

section \<open>Further properties of the handlers\<close>

text \<open>
  An authorized update or delete whose legal identifier matches no record is answered
  404 "Not found", and the store is returned as it was.
\<close>

lemma update_delete_not_found:
  assumes "spec_authorize T auth"
    and "is_valid lib pid"
    and "ObjectId lib pid \<notin> doc_id ` set (project_collection st)"
    and "int64 (order p)"
  shows "put_api_projects lib T auth pid p (Some st) =
           (Inl (HTTPException 404 ''Not found''), Some st)
         \<and> delete_api_projects lib T auth pid (Some st) =
           (Inl (HTTPException 404 ''Not found''), Some st)"
  using assms
  by (simp add: put_api_projects_def delete_api_projects_def Depends_def require_admin_eq
        update_project_def update_one_def delete_project_def set_first_unmatched
        delete_one_unmatched)

text \<open>
  An authorized update with a legal identifier and an \<open>order\<close> beyond 8 bytes is an
  exception of the driver, and the store is returned as it was.
\<close>

lemma update_overflow:
  assumes "spec_authorize T auth"
    and "is_valid lib pid"
    and "\<not> int64 (order p)"
  shows "put_api_projects lib T auth pid p (Some st) = (Inl OverflowError, Some st)"
  using assms
  by (simp add: put_api_projects_def Depends_def require_admin_eq update_project_def
        update_one_def)

text \<open>
  An authorized delete whose legal identifier matches a record removes the first
  record with that identifier and nothing else.
\<close>

lemma delete_removes_match:
  assumes "spec_authorize T auth"
    and "is_valid lib pid"
    and "project_collection st = pre @ d # post"
    and "doc_id d = ObjectId lib pid"
    and "ObjectId lib pid \<notin> doc_id ` set pre"
  shows "delete_api_projects lib T auth pid (Some st) =
           (Inr True, Some (st\<lparr>project_collection := pre @ post\<rparr>))"
  using assms delete_one_matched [of "ObjectId lib pid" pre d post]
  by (simp add: delete_api_projects_def Depends_def require_admin_eq delete_project_def)

text \<open>
  With a track playing, the answer joins the artists' names with ", " in the
  provider's order and takes the first image of the album.
\<close>

lemma now_playing_reports_track:
  "now_playing (Some ''id'') (Some ''secret'') (Some ''refresh'') provider_playing =
     Inr (JObj [(''isPlaying'', JBool True),
                (''title'', JStr ''Song''),
                (''artist'', JStr ''Ann, Bob''),
                (''album'', JStr ''Album''),
                (''albumImageUrl'', JStr ''https://img/1''),
                (''songUrl'', JStr ''https://open/1'')])"
  by (simp add: now_playing_def get_spotify_access_token_def now_playing_try_def
        provider_playing_def and_then_def Let_def not_playing_def)

end
